theory Spec2Isabelle
  imports Complex_Main
begin

section \<open>Python values, errors\<close>

text \<open>
  Subsystem identifiers are caller-chosen hashable values; the source uses integers in its
  examples and the empty string as the default of \<open>DynamicalOperator.__init__\<close>.
\<close>

datatype sysid = IdInt int | IdStr string

text \<open>
  The three scalar types that \<open>DynamicalOperator.__mul__\<close> accepts
  (\<open>type(other) is complex\<close>, \<open>is float\<close>, \<open>is int\<close>). Python floats are
  idealised as reals and Python complex numbers as HOL complex numbers.
\<close>

datatype scalar = SInt int | SFloat real | SComplex complex

fun scalar_value :: "scalar \<Rightarrow> complex" where
  "scalar_value (SInt i) = of_int i"
| "scalar_value (SFloat r) = of_real r"
| "scalar_value (SComplex z) = z"

text \<open>The classes of the exceptions that the modelled code can raise.\<close>

datatype pyclass = Exception_class | TypeError_class | AttributeError_class | ValueError_class

text \<open>
  Every \<open>raise\<close> of the source raises the base class \<open>Exception\<close> with a message;
  one constructor per message, carrying the values that the message formats.
  The last four are raised by the interpreter or by numpy, not by a \<open>raise\<close> statement.
\<close>

datatype error =
    AddOperandError
      \<comment> \<open>"Both operands in an addition must be instances of a DynamicalOperator."\<close>
  | MulOperandError
      \<comment> \<open>"The second operand of a multiplication must be a DynamicalOperator class or a scalar."\<close>
  | UnsupportedOperatorType string int
      \<comment> \<open>"Operator type {s_type_unique} unknown or unsupported for matrix generation with dimension {dim}."\<close>
  | UnknownConcatenation string
      \<comment> \<open>"Unknown/unsupported concatenation operator {operator.compound_type}."\<close>
  | UnsupportedClassType
      \<comment> \<open>"Unsupported class type in parameter operators: {op_type}."\<close>
  | MixedOperatorTypes
      \<comment> \<open>"All operators must be of the same type (a dictionary or a DynamicalOperator)."\<close>
  | MissingSubsystem sysid
      \<comment> \<open>"An operator was defined with id = {operator_key.system_id}, but this id does not appear in the subsystems parameter."\<close>
  | NoItemsAttribute
      \<comment> \<open>AttributeError: 'DynamicalOperator' object has no attribute 'items'\<close>
  | NoneOperand
      \<comment> \<open>TypeError: unsupported operand type(s) for *: 'complex' and 'NoneType'\<close>
  | ShapeMismatch
      \<comment> \<open>ValueError of numpy: operands could not be broadcast together\<close>
  | NegativeDimensions
      \<comment> \<open>ValueError of numpy: negative dimensions are not allowed\<close>

fun error_class :: "error \<Rightarrow> pyclass" where
  "error_class NoItemsAttribute = AttributeError_class"
| "error_class NoneOperand = TypeError_class"
| "error_class ShapeMismatch = ValueError_class"
| "error_class NegativeDimensions = ValueError_class"
| "error_class _ = Exception_class"

text \<open>\<open>issubclass c d\<close>: the three built-in classes derive from \<open>Exception\<close> only.\<close>

fun issubclass :: "pyclass \<Rightarrow> pyclass \<Rightarrow> bool" where
  "issubclass c Exception_class = True"
| "issubclass c d = (c = d)"

section \<open>Operator expression nodes\<close>

text \<open>
  A \<open>DynamicalOperator\<close> object. The fields \<open>compound_type\<close> and
  \<open>compound_ops\<close> of the source are kept together in \<open>compound\<close>:
  \<^item> \<open>Atom\<close>: \<open>compound_type == ''\<close>, \<open>compound_ops is None\<close>;
  \<^item> \<open>Plus ops\<close>: \<open>compound_type == '+'\<close>, \<open>compound_ops == ops\<close>;
  \<^item> \<open>Times ops\<close>: \<open>compound_type == '@'\<close>, \<open>compound_ops == ops\<close>;
  \<^item> \<open>Scaled op c\<close>: \<open>compound_type == '*'\<close>, \<open>compound_ops == [op, c]\<close>;
  \<^item> \<open>Unknown t\<close>: any other string \<open>t\<close> in \<open>compound_type\<close>.
\<close>

datatype node =
  Node (system_id: sysid) (s_type: string) (s_type_unique: string)
       (aliases: "(string \<times> string) list") (compound: compound)
and compound =
    Atom
  | Plus "node list"
  | Times "node list"
  | Scaled node scalar
  | Unknown string

fun compound_type :: "node \<Rightarrow> string" where
  "compound_type (Node _ _ _ _ Atom) = []"
| "compound_type (Node _ _ _ _ (Plus _)) = ''+''"
| "compound_type (Node _ _ _ _ (Times _)) = ''@''"
| "compound_type (Node _ _ _ _ (Scaled _ _)) = ''*''"
| "compound_type (Node _ _ _ _ (Unknown t)) = t"

text \<open>What the right operand of \<open>+\<close> or \<open>*\<close> can be.\<close>

datatype pyval =
    PyNode node
  | PyInt int
  | PyFloat real
  | PyComplex complex
  | PyBool bool
  | PyStr string
  | PyNone

fun scalar_pyval :: "scalar \<Rightarrow> pyval" where
  "scalar_pyval (SInt i) = PyInt i"
| "scalar_pyval (SFloat r) = PyFloat r"
| "scalar_pyval (SComplex z) = PyComplex z"

text \<open>
  The list \<open>compound_ops\<close> of a node, \<open>None\<close> for an atom. The operands of a node with
  an unknown tag are not kept: the builder raises before it reads them.
\<close>

fun compound_ops :: "node \<Rightarrow> pyval list option" where
  "compound_ops (Node _ _ _ _ Atom) = None"
| "compound_ops (Node _ _ _ _ (Plus ops)) = Some (map PyNode ops)"
| "compound_ops (Node _ _ _ _ (Times ops)) = Some (map PyNode ops)"
| "compound_ops (Node _ _ _ _ (Scaled op c)) = Some [PyNode op, scalar_pyval c]"
| "compound_ops (Node _ _ _ _ (Unknown t)) = None"

fun is_node :: "pyval \<Rightarrow> bool" where
  "is_node (PyNode n) = True"
| "is_node _ = False"

definition DEFAULT_ALIASES :: "(string \<times> string) list" where
  "DEFAULT_ALIASES = [(''id'', ''i''), (''sx'', ''x''), (''sy'', ''y''), (''sz'', ''z'')]"

text \<open>\<open>str.lower\<close> on ASCII letters.\<close>

definition lower_char :: "char \<Rightarrow> char" where
  "lower_char c =
     (let n = (of_char c :: nat) in if 65 \<le> n \<and> n \<le> 90 then char_of (n + 32) else c)"

definition lower :: "string \<Rightarrow> string" where
  "lower s = map lower_char s"

text \<open>The setter of \<open>s_type\<close>: \<open>self.aliases.get(s_type.lower(), s_type.lower())\<close>.\<close>

definition unique_type :: "(string \<times> string) list \<Rightarrow> string \<Rightarrow> string" where
  "unique_type al st = (case map_of al (lower st) of None \<Rightarrow> lower st | Some u \<Rightarrow> u)"

text \<open>\<open>DynamicalOperator.__init__(system_id, s_type, aliases)\<close>.\<close>

definition DynamicalOperator :: "sysid \<Rightarrow> string \<Rightarrow> (string \<times> string) list option \<Rightarrow> node" where
  "DynamicalOperator sid st al =
     (let a = (case al of None \<Rightarrow> DEFAULT_ALIASES | Some a \<Rightarrow> a)
      in Node sid st (unique_type a st) a Atom)"

text \<open>\<open>new_operator\<close>: \<open>DynamicalOperator(aliases = self.aliases)\<close>.\<close>

definition new_operator :: "node \<Rightarrow> node" where
  "new_operator self = DynamicalOperator (IdStr []) [] (Some (aliases self))"

definition set_compound :: "node \<Rightarrow> compound \<Rightarrow> node" where
  "set_compound n c = Node (system_id n) (s_type n) (s_type_unique n) (aliases n) c"

text \<open>\<open>__add__\<close>.\<close>

fun add :: "node \<Rightarrow> pyval \<Rightarrow> error + node" where
  "add self (PyNode other) = Inr (set_compound (new_operator self) (Plus [self, other]))"
| "add self _ = Inl AddOperandError"

text \<open>
  \<open>__mul__\<close>. The test on the scalar is \<open>type(other) is complex/float/int\<close>, so a
  \<open>bool\<close> is refused although it is an \<open>int\<close> instance.
\<close>

fun mul :: "node \<Rightarrow> pyval \<Rightarrow> error + node" where
  "mul self (PyNode other) = Inr (set_compound (new_operator self) (Times [self, other]))"
| "mul self (PyComplex z) = Inr (set_compound (new_operator self) (Scaled self (SComplex z)))"
| "mul self (PyFloat r) = Inr (set_compound (new_operator self) (Scaled self (SFloat r)))"
| "mul self (PyInt i) = Inr (set_compound (new_operator self) (Scaled self (SInt i)))"
| "mul self _ = Inl MulOperandError"

text \<open>\<open>__rmul__\<close>, which Python calls for \<open>c * a\<close> with \<open>c\<close> a scalar.\<close>

definition rmul :: "node \<Rightarrow> pyval \<Rightarrow> error + node" where
  "rmul self other = mul self other"

text \<open>\<open>__neg__\<close> and \<open>__pos__\<close>.\<close>

definition neg :: "node \<Rightarrow> error + node" where
  "neg self = rmul self (PyFloat (- 1))"

definition pos :: "node \<Rightarrow> node" where
  "pos self = self"

text \<open>The subclasses \<open>Sx\<close>, \<open>Sy\<close>, \<open>Sz\<close>, \<open>Sp\<close>, \<open>Sm\<close>, \<open>Sid\<close>.\<close>

definition Sx :: "sysid \<Rightarrow> node" where "Sx sid = DynamicalOperator sid ''x'' None"
definition Sy :: "sysid \<Rightarrow> node" where "Sy sid = DynamicalOperator sid ''y'' None"
definition Sz :: "sysid \<Rightarrow> node" where "Sz sid = DynamicalOperator sid ''z'' None"
definition Sp :: "sysid \<Rightarrow> node" where "Sp sid = DynamicalOperator sid ''sp'' None"
definition Sm :: "sysid \<Rightarrow> node" where "Sm sid = DynamicalOperator sid ''sm'' None"
definition Sid :: "sysid \<Rightarrow> node" where "Sid sid = DynamicalOperator sid ''id'' None"

section \<open>Flattening\<close>

text \<open>
  A \<open>DynamicalOperatorKey\<close> object. The class defines \<open>__hash__\<close> and no
  \<open>__eq__\<close>, so two keys are equal exactly when they are the same object;
  \<open>key_addr\<close> is the identity of the object (the number of keys allocated before it).
\<close>

record DynamicalOperatorKey =
  key_addr :: nat
  key_system_id :: sysid
  key_s_type_unique :: string

type_synonym key_tuple = "DynamicalOperatorKey list"

text \<open>Equality of two tuples of keys: element by element, each by identity.\<close>

definition tuple_eq :: "key_tuple \<Rightarrow> key_tuple \<Rightarrow> bool" where
  "tuple_eq k1 k2 = (map key_addr k1 = map key_addr k2)"

text \<open>A Python \<open>dict\<close> from key tuples to coefficients, in insertion order.\<close>

type_synonym op_dict = "(key_tuple \<times> complex) list"

fun dict_get :: "op_dict \<Rightarrow> key_tuple \<Rightarrow> complex \<Rightarrow> complex" where
  "dict_get [] k dflt = dflt"
| "dict_get ((k', v) # d) k dflt = (if tuple_eq k' k then v else dict_get d k dflt)"

text \<open>\<open>d[k] = v\<close>: an existing entry keeps its place and its key object.\<close>

fun dict_set :: "op_dict \<Rightarrow> key_tuple \<Rightarrow> complex \<Rightarrow> op_dict" where
  "dict_set [] k v = [(k, v)]"
| "dict_set ((k', v') # d) k v =
     (if tuple_eq k' k then (k', v) # d else (k', v') # dict_set d k v)"

text \<open>The inner loop of the \<open>'+'\<close> branch, over the items of one summand.\<close>

fun add_items :: "op_dict \<Rightarrow> op_dict \<Rightarrow> op_dict" where
  "add_items [] result = result"
| "add_items ((key, val) # items) result =
     add_items items (dict_set result key (val + dict_get result key 0))"

text \<open>The inner loop of the \<open>'@'\<close> branch, over the items of one factor.\<close>

fun mul_items :: "op_dict \<Rightarrow> key_tuple \<times> complex \<Rightarrow> key_tuple \<times> complex" where
  "mul_items [] acc = acc"
| "mul_items ((key, val) # items) (new_key, new_val) =
     mul_items items (new_key @ key, new_val * val)"

text \<open>The loop of the \<open>'*'\<close> branch: \<open>op_dict[key] = val * scalar\<close> for every item.\<close>

fun scale_items :: "op_dict \<Rightarrow> op_dict \<Rightarrow> scalar \<Rightarrow> op_dict" where
  "scale_items [] d s = d"
| "scale_items ((key, val) # items) d s =
     scale_items items (dict_set d key (val * scalar_value s)) s"

text \<open>
  \<open>_build_one_dict\<close>. The second argument and the second component of the result count
  the \<open>DynamicalOperatorKey\<close> objects allocated so far.
\<close>

fun build_one_dict :: "node \<Rightarrow> nat \<Rightarrow> error + (op_dict \<times> nat)"
and sum_ops :: "node list \<Rightarrow> op_dict \<Rightarrow> nat \<Rightarrow> error + (op_dict \<times> nat)"
and prod_ops :: "node list \<Rightarrow> key_tuple \<times> complex \<Rightarrow> nat \<Rightarrow> error + ((key_tuple \<times> complex) \<times> nat)"
where
  "build_one_dict (Node sid st stu al (Plus ops)) heap = sum_ops ops [] heap"
| "build_one_dict (Node sid st stu al (Times ops)) heap =
     (case prod_ops ops ([], 1) heap of
        Inl e \<Rightarrow> Inl e
      | Inr (item, heap') \<Rightarrow> Inr ([item], heap'))"
| "build_one_dict (Node sid st stu al (Scaled op s)) heap =
     (case build_one_dict op heap of
        Inl e \<Rightarrow> Inl e
      | Inr (op_dict, heap') \<Rightarrow> Inr (scale_items op_dict op_dict s, heap'))"
| "build_one_dict (Node sid st stu al Atom) heap =
     Inr ([([\<lparr>key_addr = heap, key_system_id = sid, key_s_type_unique = stu\<rparr>], 1)], Suc heap)"
| "build_one_dict (Node sid st stu al (Unknown t)) heap = Inl (UnknownConcatenation t)"
| "sum_ops [] result heap = Inr (result, heap)"
| "sum_ops (op # ops) result heap =
     (case build_one_dict op heap of
        Inl e \<Rightarrow> Inl e
      | Inr (op_dict, heap') \<Rightarrow> sum_ops ops (add_items op_dict result) heap')"
| "prod_ops [] acc heap = Inr (acc, heap)"
| "prod_ops (op # ops) acc heap =
     (case build_one_dict op heap of
        Inl e \<Rightarrow> Inl e
      | Inr (op_dict, heap') \<Rightarrow> prod_ops ops (mul_items op_dict acc) heap')"

text \<open>
  \<open>build_dictionaries\<close> takes one operator or a list of them, and answers in the same
  shape. Each call starts with no key allocated.
\<close>

datatype 'a one_or_list = One 'a | Many "'a list"

fun dict_loop :: "node list \<Rightarrow> nat \<Rightarrow> error + op_dict list" where
  "dict_loop [] heap = Inr []"
| "dict_loop (op # ops) heap =
     (case build_one_dict op heap of
        Inl e \<Rightarrow> Inl e
      | Inr (d, heap') \<Rightarrow>
          (case dict_loop ops heap' of Inl e \<Rightarrow> Inl e | Inr ds \<Rightarrow> Inr (d # ds)))"

fun build_dictionaries :: "node one_or_list \<Rightarrow> error + op_dict one_or_list" where
  "build_dictionaries (One op) =
     (case dict_loop [op] 0 of Inl e \<Rightarrow> Inl e | Inr results \<Rightarrow> Inr (One (hd results)))"
| "build_dictionaries (Many ops) =
     (case dict_loop ops 0 of Inl e \<Rightarrow> Inl e | Inr results \<Rightarrow> Inr (Many results))"

section \<open>Matrices\<close>

text \<open>
  A two-dimensional complex \<open>numpy\<close> array, as the list of its rows. Floating-point
  arithmetic is idealised as exact arithmetic in the complex field.
\<close>

type_synonym matrix = "complex list list"

definition zeros :: "nat \<Rightarrow> matrix" where
  "zeros n = replicate n (replicate n 0)"

definition shape :: "matrix \<Rightarrow> nat \<times> nat" where
  "shape M = (length M, (case M of [] \<Rightarrow> 0 | r # _ \<Rightarrow> length r))"

text \<open>\<open>val * M\<close> for a scalar \<open>val\<close>.\<close>

definition scale :: "complex \<Rightarrow> matrix \<Rightarrow> matrix" where
  "scale c M = map (map ((*) c)) M"

text \<open>Entry-wise sum of two arrays of one shape.\<close>

definition madd :: "matrix \<Rightarrow> matrix \<Rightarrow> matrix" where
  "madd A B = map2 (map2 (+)) A B"

text \<open>
  \<open>matrix += other\<close>: \<open>other\<close> has the shape of \<open>matrix\<close>, or is a 1 x 1 array that numpy
  broadcasts (the arrays that reach this place are square); otherwise numpy raises.
\<close>

definition iadd :: "matrix \<Rightarrow> matrix \<Rightarrow> error + matrix" where
  "iadd M other =
     (if shape other = shape M then Inr (madd M other)
      else if shape other = (1, 1) then Inr (map (map (\<lambda>x. x + hd (hd other))) M)
      else Inl ShapeMismatch)"

text \<open>The columns of an array, and \<open>A @ B\<close>.\<close>

definition columns :: "matrix \<Rightarrow> matrix" where
  "columns B = (case B of [] \<Rightarrow> [] | r # _ \<Rightarrow> map (\<lambda>j. map (\<lambda>row. row ! j) B) [0..<length r])"

definition matmul :: "matrix \<Rightarrow> matrix \<Rightarrow> matrix" where
  "matmul A B = map (\<lambda>row. map (\<lambda>col. sum_list (map2 (*) row col)) (columns B)) A"

text \<open>\<open>get_operator_matrix\<close> of the class \<open>DynamicalOperator\<close>.\<close>

definition get_operator_matrix :: "string \<Rightarrow> int \<Rightarrow> error + matrix" where
  "get_operator_matrix op_type dimn =
     (if op_type = ''null'' then
        (if dimn < 0 then Inl NegativeDimensions else Inr (zeros (nat dimn)))
      else if dimn = 2 \<and> op_type = ''i'' then Inr [[1, 0], [0, 1]]
      else if dimn = 2 \<and> op_type = ''x'' then Inr [[0, 1], [1, 0]]
      else if dimn = 2 \<and> op_type = ''y'' then Inr [[0, - \<i>], [\<i>, 0]]
      else if dimn = 2 \<and> op_type = ''z'' then Inr [[1, 0], [0, - 1]]
      else if dimn = 2 \<and> op_type = ''sp'' then Inr [[0, 1], [0, 0]]
      else if dimn = 2 \<and> op_type = ''sm'' then Inr [[0, 0], [1, 0]]
      else if dimn = 2 \<and> op_type = ''0'' then Inr [[1, 0], [0, 0]]
      else if dimn = 2 \<and> op_type = ''1'' then Inr [[0, 0], [0, 1]]
      else Inl (UnsupportedOperatorType op_type dimn))"

text \<open>\<open>get_kron_matrix\<close>: \<open>np.kron\<close> of two two-dimensional arrays.\<close>

definition get_kron_matrix :: "matrix \<Rightarrow> matrix \<Rightarrow> matrix" where
  "get_kron_matrix left_matrix right_matrix =
     concat (map (\<lambda>lrow. map (\<lambda>rrow. concat (map (\<lambda>l. map (\<lambda>r. l * r) rrow) lrow))
                               right_matrix) left_matrix)"

definition get_zeros_matrix :: "int \<Rightarrow> error + matrix" where
  "get_zeros_matrix dimn = get_operator_matrix ''null'' dimn"

section \<open>Matrix realization\<close>

text \<open>The fields of an \<open>OperatorBuilder\<close> that \<open>build_matrices\<close> sets.\<close>

record builder =
  ids :: "sysid list"
  identity_matrices :: "matrix list"
  subsystems :: "(sysid \<times> int) list"
  total_dim :: int

text \<open>
  The loop over the elements of one key tuple, which fills \<open>sub_matrices\<close>. The
  elementary matrices of one subsystem have one dimension, so \<open>@\<close> never fails.
\<close>

fun key_loop ::
  "(sysid \<times> int) list \<Rightarrow> key_tuple \<Rightarrow> (sysid \<rightharpoonup> matrix) \<Rightarrow> error + (sysid \<rightharpoonup> matrix)" where
  "key_loop subs [] sub_matrices = Inr sub_matrices"
| "key_loop subs (operator_key # key) sub_matrices =
     (case map_of subs (key_system_id operator_key) of
        None \<Rightarrow> Inl (MissingSubsystem (key_system_id operator_key))
      | Some dimn \<Rightarrow>
          (case get_operator_matrix (key_s_type_unique operator_key) dimn of
             Inl e \<Rightarrow> Inl e
           | Inr new_sub_matrix \<Rightarrow>
               key_loop subs key
                 (sub_matrices(key_system_id operator_key \<mapsto>
                    (case sub_matrices (key_system_id operator_key) of
                       None \<Rightarrow> new_sub_matrix
                     | Some sub_matrix \<Rightarrow> matmul sub_matrix new_sub_matrix)))))"

text \<open>
  The loop \<open>for i in range(n_subsystems)\<close>, over the pairs
  \<open>(self._ids[i], self._identity_matrices[i])\<close> from index \<open>i\<close> on.
\<close>

fun kron_loop ::
  "(sysid \<rightharpoonup> matrix) \<Rightarrow> (sysid \<times> matrix) list \<Rightarrow> nat \<Rightarrow> matrix option \<Rightarrow> matrix option" where
  "kron_loop sub_matrices [] i op_matrix = op_matrix"
| "kron_loop sub_matrices ((sys_id, identity_matrix) # rest) i op_matrix =
     (let sub_matrix = (case sub_matrices sys_id of None \<Rightarrow> identity_matrix | Some m \<Rightarrow> m)
      in kron_loop sub_matrices rest (Suc i)
           (if i = 0 then Some sub_matrix
            else (case op_matrix of
                    None \<Rightarrow> None
                  | Some m \<Rightarrow> Some (get_kron_matrix m sub_matrix))))"

text \<open>The loop over the items of the dictionary, which accumulates into \<open>matrix\<close>.\<close>

fun term_loop :: "builder \<Rightarrow> op_dict \<Rightarrow> matrix \<Rightarrow> error + matrix" where
  "term_loop b [] matrix = Inr matrix"
| "term_loop b ((key, val) # items) matrix =
     (case key_loop (subsystems b) key Map.empty of
        Inl e \<Rightarrow> Inl e
      | Inr sub_matrices \<Rightarrow>
          (case kron_loop sub_matrices (zip (ids b) (identity_matrices b)) 0 None of
             None \<Rightarrow> Inl NoneOperand
           | Some op_matrix \<Rightarrow>
               (case iadd matrix (scale val op_matrix) of
                  Inl e \<Rightarrow> Inl e
                | Inr matrix' \<Rightarrow> term_loop b items matrix')))"

text \<open>An element of the argument \<open>operators\<close> of \<open>build_matrices\<close>.\<close>

datatype operator_item =
    ItemDict op_dict
  | ItemNode node
  | ItemOther

text \<open>\<open>_build_one_matrix\<close>; a node has no \<open>items\<close>.\<close>

fun build_one_matrix :: "builder \<Rightarrow> operator_item \<Rightarrow> error + matrix" where
  "build_one_matrix b item =
     (case get_zeros_matrix (total_dim b) of
        Inl e \<Rightarrow> Inl e
      | Inr matrix \<Rightarrow>
          (case item of
             ItemDict operator_dict \<Rightarrow> term_loop b operator_dict matrix
           | _ \<Rightarrow> Inl NoItemsAttribute))"

text \<open>The loop that verifies the types of the operators; it returns \<open>b_dictionaries\<close>.\<close>

fun check_types :: "operator_item list \<Rightarrow> bool \<Rightarrow> error + bool" where
  "check_types [] b_dictionaries = Inr b_dictionaries"
| "check_types (ItemDict d # ops) b_dictionaries = check_types ops True"
| "check_types (ItemOther # ops) b_dictionaries = Inl UnsupportedClassType"
| "check_types (ItemNode n # ops) b_dictionaries =
     (if b_dictionaries then Inl MixedOperatorTypes else check_types ops b_dictionaries)"

fun identity_loop :: "int list \<Rightarrow> error + matrix list" where
  "identity_loop [] = Inr []"
| "identity_loop (dimn # dims) =
     (case get_operator_matrix ''i'' dimn of
        Inl e \<Rightarrow> Inl e
      | Inr m \<Rightarrow> (case identity_loop dims of Inl e \<Rightarrow> Inl e | Inr ms \<Rightarrow> Inr (m # ms)))"

fun matrix_loop :: "builder \<Rightarrow> operator_item list \<Rightarrow> error + matrix list" where
  "matrix_loop b [] = Inr []"
| "matrix_loop b (op_dict # ops) =
     (case build_one_matrix b op_dict of
        Inl e \<Rightarrow> Inl e
      | Inr m \<Rightarrow> (case matrix_loop b ops of Inl e \<Rightarrow> Inl e | Inr ms \<Rightarrow> Inr (m # ms)))"

text \<open>What \<open>build_matrices\<close> returns: \<open>None\<close>, a matrix, or a list of matrices.\<close>

datatype result = RNone | RMatrix matrix | RList "matrix list"

text \<open>
  \<open>build_matrices\<close> with the default \<open>dyn_op\<close>. When no element is a dictionary, the
  type check has made sure that every element is a node.
\<close>

definition build_matrices :: "operator_item one_or_list \<Rightarrow> (sysid \<times> int) list \<Rightarrow> error + result" where
  "build_matrices operators subs =
     (if length subs = 0 then Inr RNone
      else
        let b_flatten = (case operators of One _ \<Rightarrow> True | Many _ \<Rightarrow> False);
            ops = (case operators of One op \<Rightarrow> [op] | Many l \<Rightarrow> l);
            dims = map snd subs;
            total = fold (\<lambda>dimn t. if dimn > 0 then t * dimn else t) dims 1
        in if length ops = 0 then
             (case get_zeros_matrix total of Inl e \<Rightarrow> Inl e | Inr m \<Rightarrow> Inr (RMatrix m))
           else
             (case check_types ops False of
                Inl e \<Rightarrow> Inl e
              | Inr b_dictionaries \<Rightarrow>
                  (case (if b_dictionaries then Inr ops
                         else (case dict_loop (concat (map (\<lambda>op. case op of ItemNode n \<Rightarrow> [n] | _ \<Rightarrow> []) ops)) 0 of
                                 Inl e \<Rightarrow> Inl e
                               | Inr ds \<Rightarrow> Inr (map ItemDict ds))) of
                     Inl e \<Rightarrow> Inl e
                   | Inr operators_dict \<Rightarrow>
                       (case identity_loop dims of
                          Inl e \<Rightarrow> Inl e
                        | Inr ims \<Rightarrow>
                            (case matrix_loop
                                    \<lparr>ids = map fst subs, identity_matrices = ims,
                                     subsystems = subs, total_dim = total\<rparr>
                                    operators_dict of
                               Inl e \<Rightarrow> Inl e
                             | Inr results \<Rightarrow>
                                 Inr (if b_flatten then RMatrix (hd results)
                                      else RList results))))))"

section \<open>Matrix realization as the specification words it\<close>

text \<open>
  The following definitions are not taken from the code. They restate the
  specification of the realization, and are compared with \<open>build_matrices\<close> below:
  group the keys of a term by subsystem; multiply the elementary matrices of one
  subsystem in tuple order; take the identity for a subsystem absent from the term; take
  the Kronecker product in the order of the subsystem map; scale by the coefficient and
  sum over the terms.
\<close>

definition supported_types :: "string list" where
  "supported_types = [''null'', ''i'', ''x'', ''y'', ''z'', ''sp'', ''sm'', ''0'', ''1'']"

definition identity_spec :: "nat \<Rightarrow> matrix" where
  "identity_spec n = map (\<lambda>i. map (\<lambda>j. if i = j then 1 else 0) [0..<n]) [0..<n]"

definition elementary_spec :: "int \<Rightarrow> DynamicalOperatorKey \<Rightarrow> matrix" where
  "elementary_spec dimn k =
     (case get_operator_matrix (key_s_type_unique k) dimn of Inl e \<Rightarrow> [] | Inr m \<Rightarrow> m)"

definition factor_spec :: "key_tuple \<Rightarrow> sysid \<times> int \<Rightarrow> matrix" where
  "factor_spec key sub =
     (case filter (\<lambda>k. key_system_id k = fst sub) key of
        [] \<Rightarrow> identity_spec (nat (snd sub))
      | k # ks \<Rightarrow> foldl matmul (elementary_spec (snd sub) k) (map (elementary_spec (snd sub)) ks))"

definition kron_all_spec :: "matrix list \<Rightarrow> matrix" where
  "kron_all_spec ms = (case ms of [] \<Rightarrow> [] | m # rest \<Rightarrow> foldl get_kron_matrix m rest)"

definition term_matrix_spec :: "(sysid \<times> int) list \<Rightarrow> key_tuple \<Rightarrow> matrix" where
  "term_matrix_spec subs key = kron_all_spec (map (factor_spec key) subs)"

definition total_dim_spec :: "(sysid \<times> int) list \<Rightarrow> nat" where
  "total_dim_spec subs = nat (prod_list (filter (\<lambda>d. d \<noteq> 0) (map snd subs)))"

definition realize_spec :: "(sysid \<times> int) list \<Rightarrow> op_dict \<Rightarrow> matrix" where
  "realize_spec subs d =
     foldl (\<lambda>M (key, val). madd M (scale val (term_matrix_spec subs key)))
           (zeros (total_dim_spec subs)) d"

text \<open>An array with \<open>n\<close> rows of \<open>n\<close> entries.\<close>

definition square :: "nat \<Rightarrow> matrix \<Rightarrow> bool" where
  "square n M \<longleftrightarrow> length M = n \<and> (\<forall>r \<in> set M. length r = n)"

text \<open>
  The keys of a dictionary are usable with a subsystem map: every subsystem is in the
  map and every operator type is one that \<open>get_operator_matrix\<close> knows at dimension 2.
\<close>

definition realizable :: "(sysid \<times> int) list \<Rightarrow> key_tuple \<Rightarrow> bool" where
  "realizable subs key \<longleftrightarrow>
     (\<forall>k \<in> set key. key_system_id k \<in> fst ` set subs \<and>
                     key_s_type_unique k \<in> set supported_types)"

section \<open>Auxiliary notions of the proofs\<close>

text \<open>The identity matrix that \<open>get_operator_matrix\<close> returns at dimension 2.\<close>

definition I2 :: matrix where "I2 = [[1, 0], [0, 1]]"

text \<open>What \<open>key_loop\<close> leaves in \<open>sub_matrices\<close> for one subsystem.\<close>

definition grouped :: "key_tuple \<Rightarrow> (sysid \<rightharpoonup> matrix) \<Rightarrow> sysid \<rightharpoonup> matrix" where
  "grouped key sm sid =
     (case filter (\<lambda>k. key_system_id k = sid) key of
        [] \<Rightarrow> sm sid
      | k # ks \<Rightarrow>
          Some (foldl matmul
                  (case sm sid of None \<Rightarrow> elementary_spec 2 k
                   | Some m \<Rightarrow> matmul m (elementary_spec 2 k))
                  (map (elementary_spec 2) ks)))"

text \<open>The choice between the matrix of a subsystem and its identity in \<open>kron_loop\<close>.\<close>

fun pick :: "(sysid \<rightharpoonup> matrix) \<Rightarrow> sysid \<times> matrix \<Rightarrow> matrix" where
  "pick sm (sid, im) = (case sm sid of None \<Rightarrow> im | Some m \<Rightarrow> m)"

text \<open>\<open>c * r\<close> for what \<open>build_matrices\<close> returned.\<close>

fun scale_result :: "complex \<Rightarrow> result \<Rightarrow> result" where
  "scale_result c RNone = RNone"
| "scale_result c (RMatrix m) = RMatrix (scale c m)"
| "scale_result c (RList ms) = RList (map (scale c) ms)"

text \<open>The invariant of a Python \<open>dict\<close>: no two keys are equal.\<close>

definition dict_ok :: "op_dict \<Rightarrow> bool" where
  "dict_ok d \<longleftrightarrow> distinct (map (\<lambda>item. map key_addr (fst item)) d)"

text \<open>A dictionary with every coefficient multiplied by \<open>c\<close>.\<close>

definition scaled_dict :: "complex \<Rightarrow> op_dict \<Rightarrow> op_dict" where
  "scaled_dict c d = map (\<lambda>item. (fst item, snd item * c)) d"

section \<open>The compiler of custom binary operations\<close>

text \<open>
  The module \<open>qiskit_dynamics.perturbation.custom_binary_op\<close> is not among the sources
  at hand; only its tests are. The definitions of this section follow the specification.
  A rule is a list of entries, each a vector of coefficients and a parallel list of
  index pairs. Coefficients are idealised as reals.
\<close>

type_synonym rule_entry = "real list \<times> (int \<times> int) list"

type_synonym compiled_rule = "(int \<times> int) list \<times> (real list list \<times> int list list)"

text \<open>
  Modelled from the spec: the scan that builds the deduplicated list of unique pairs in
  first-encountered order (part of \<open>_compile_custom_operation_rule\<close>, which is missing).
\<close>

definition add_unique :: "(int \<times> int) list \<Rightarrow> int \<times> int \<Rightarrow> (int \<times> int) list" where
  "add_unique acc p = (if p \<in> set acc then acc else acc @ [p])"

definition shift_pair :: "int \<Rightarrow> int \<times> int \<Rightarrow> int \<times> int" where
  "shift_pair index_offset p = (fst p + index_offset, snd p + index_offset)"

definition unique_pairs :: "int \<Rightarrow> rule_entry list \<Rightarrow> (int \<times> int) list" where
  "unique_pairs index_offset rule =
     foldl add_unique [] (map (shift_pair index_offset) (concat (map snd rule)))"

text \<open>Modelled from the spec: the position of a pair in the unique list.\<close>

fun position :: "(int \<times> int) list \<Rightarrow> int \<times> int \<Rightarrow> nat" where
  "position [] p = 0"
| "position (q # qs) p = (if q = p then 0 else Suc (position qs p))"

text \<open>Modelled from the spec: padding a row to a width (a row is never cut).\<close>

definition pad :: "nat \<Rightarrow> 'a \<Rightarrow> 'a list \<Rightarrow> 'a list" where
  "pad n x xs = xs @ replicate (n - length xs) x"

text \<open>
  Modelled from the spec: \<open>_compile_custom_operation_rule(rule, unique_evaluation_len,
  linear_combo_len, index_offset)\<close>, which is missing. The result is the padded table of
  unique pairs, and the padded tables of coefficients and of positions (padding:
  \<open>(-1, -1)\<close>, \<open>0\<close> and \<open>-1\<close>).
\<close>

definition compile_custom_operation_rule ::
  "rule_entry list \<Rightarrow> nat option \<Rightarrow> nat option \<Rightarrow> int \<Rightarrow> compiled_rule" where
  "compile_custom_operation_rule rule unique_evaluation_len linear_combo_len index_offset =
     (let unique = unique_pairs index_offset rule;
          rows = map (\<lambda>entry. zip (fst entry) (snd entry)) rule;
          unique_len = (case unique_evaluation_len of None \<Rightarrow> length unique | Some n \<Rightarrow> n);
          combo_len = (case linear_combo_len of
                         None \<Rightarrow> foldr max (map length rows) 0
                       | Some n \<Rightarrow> n)
      in (pad unique_len (- 1, - 1) unique,
          (map (\<lambda>row. pad combo_len 0 (map fst row)) rows,
           map (\<lambda>row. pad combo_len (- 1)
                  (map (\<lambda>cp. int (position unique (shift_pair index_offset (snd cp)))) row))
               rows)))"

text \<open>
  Modelled from the spec: the evaluation of a compiled rule on the operand batches
  \<open>A\<close> and \<open>B\<close> (the call of \<open>_CustomBinaryOp\<close>, which is missing): for each output
  term the sum over its padded row of \<open>coeff * binary_op(A[i], B[j])\<close> with \<open>(i, j)\<close>
  the unique pair of the slot, the slots with the sentinel \<open>-1\<close> contributing nothing.
  The indices are taken to be in range.
\<close>

definition evaluate_slot ::
  "(int \<times> int) list \<Rightarrow> ('a \<Rightarrow> 'b \<Rightarrow> 'v::real_vector) \<Rightarrow> 'a list \<Rightarrow> 'b list \<Rightarrow> real \<times> int \<Rightarrow> 'v" where
  "evaluate_slot unique binary_op A B slot =
     (if snd slot = - 1 then 0
      else fst slot *\<^sub>R binary_op (A ! nat (fst (unique ! nat (snd slot))))
                                 (B ! nat (snd (unique ! nat (snd slot)))))"

definition evaluate_compiled ::
  "compiled_rule \<Rightarrow> ('a \<Rightarrow> 'b \<Rightarrow> 'v::real_vector) \<Rightarrow> 'a list \<Rightarrow> 'b list \<Rightarrow> 'v list" where
  "evaluate_compiled compiled binary_op A B =
     map (\<lambda>row. sum_list (map (evaluate_slot (fst compiled) binary_op A B) (zip (fst row) (snd row))))
         (zip (fst (snd compiled)) (snd (snd compiled)))"

definition CustomBinaryOp ::
  "rule_entry list \<Rightarrow> ('a \<Rightarrow> 'b \<Rightarrow> 'v::real_vector) \<Rightarrow> 'a list \<Rightarrow> 'b list \<Rightarrow> 'v list" where
  "CustomBinaryOp operation_rule binary_op A B =
     evaluate_compiled (compile_custom_operation_rule operation_rule None None 0) binary_op A B"

text \<open>
  What the rule declares for one entry: the sum over \<open>m\<close> of
  \<open>coeff[m] * binary_op(A[pairs[m][0]], B[pairs[m][1]])\<close>.
\<close>

definition entry_sum ::
  "('a \<Rightarrow> 'b \<Rightarrow> 'v::real_vector) \<Rightarrow> 'a list \<Rightarrow> 'b list \<Rightarrow> rule_entry \<Rightarrow> 'v" where
  "entry_sum binary_op A B entry =
     sum_list (map (\<lambda>cp. fst cp *\<^sub>R binary_op (A ! nat (fst (snd cp))) (B ! nat (snd (snd cp))))
                   (zip (fst entry) (snd entry)))"

text \<open>The rule of the tests.\<close>

definition mult_rule1 :: "rule_entry list" where
  "mult_rule1 = [([1, 2, 3], [(0, 2), (1, 1), (2, 0)]), ([1], [(0, 2)]), ([3], [(1, 1)])]"

section \<open>Addition of nodes\<close>

text \<open>
  C9, as the code has it: for a node \<open>self\<close>, \<open>self + other\<close> with \<open>other\<close> a node is a
  new node with \<open>compound_type == '+'\<close> and \<open>compound_ops == [self, other]\<close>; with any
  other operand it raises, and what it raises is an instance of the base class
  \<open>Exception\<close> ("Both operands in an addition must be instances of a
  DynamicalOperator."), not of \<open>TypeError\<close>.
\<close>

theorem add_contract:
  "(is_node other \<longrightarrow>
      (\<exists>r. add self other = Inr r \<and> compound_type r = ''+'' \<and>
           compound_ops r = Some [PyNode self, other])) \<and>
   (\<not> is_node other \<longrightarrow>
      add self other = Inl AddOperandError \<and> error_class AddOperandError = Exception_class)"
  by (cases other) (simp_all add: set_compound_def)

theorem add_contract_witness:
  "(\<exists>r. add (Sx (IdInt 0)) (PyNode (Sz (IdInt 1))) = Inr r \<and> compound_type r = ''+'' \<and>
        compound_ops r = Some [PyNode (Sx (IdInt 0)), PyNode (Sz (IdInt 1))]) \<and>
   add (Sx (IdInt 0)) (PyInt 5) = Inl AddOperandError \<and>
   error_class AddOperandError = Exception_class"
  using add_contract [of "PyNode (Sz (IdInt 1))" "Sx (IdInt 0)"]
        add_contract [of "PyInt 5" "Sx (IdInt 0)"]
  by simp

text \<open>
  C9 as stated fails: \<open>Sx(0) + 5\<close> raises an exception whose class is \<open>Exception\<close>,
  which is not \<open>TypeError\<close> nor one of its subclasses.
\<close>

theorem add_not_TypeError:
  "add (Sx (IdInt 0)) (PyInt 5) = Inl AddOperandError \<and>
   \<not> issubclass (error_class AddOperandError) TypeError_class"
  by simp

section \<open>Flattening: what the code does on sums\<close>

text \<open>
  C1 at \<open>Sx(0) + Sx(0)\<close>: the two leaves give two key objects; the keys have one hash
  and are not equal, so the dictionary has two entries with coefficient 1, not one
  entry with coefficient 2.
\<close>

theorem flatten_sum_keeps_equal_keys_apart:
  "(case add (Sx (IdInt 0)) (PyNode (Sx (IdInt 0))) of
      Inl e \<Rightarrow> Inl e
    | Inr n \<Rightarrow> build_dictionaries (One n)) =
   Inr (One [([\<lparr>key_addr = 0, key_system_id = IdInt 0, key_s_type_unique = ''x''\<rparr>], 1),
             ([\<lparr>key_addr = 1, key_system_id = IdInt 0, key_s_type_unique = ''x''\<rparr>], 1)])"
  by code_simp

text \<open>
  C2 at \<open>(Sx(0) + Sy(0)) * Sz(0)\<close>: the product branch appends the keys of every entry
  of every factor to one key and multiplies all their coefficients, so the result is the
  single entry \<open>(x_0, y_0, z_0) : 1\<close> and not the two entries \<open>(x_0, z_0) : 1\<close> and
  \<open>(y_0, z_0) : 1\<close>. With the map \<open>{0: 2}\<close> the realized matrix is then \<open>X Y Z\<close>,
  which is \<open>i\<close> times the identity, and not \<open>(X + Y) Z\<close>.
\<close>

theorem flatten_product_of_sum_is_one_entry:
  "(case add (Sx (IdInt 0)) (PyNode (Sy (IdInt 0))) of
      Inl e \<Rightarrow> Inl e
    | Inr s \<Rightarrow>
        (case mul s (PyNode (Sz (IdInt 0))) of
           Inl e \<Rightarrow> Inl e
         | Inr p \<Rightarrow> build_dictionaries (One p))) =
   Inr (One [([\<lparr>key_addr = 0, key_system_id = IdInt 0, key_s_type_unique = ''x''\<rparr>,
               \<lparr>key_addr = 1, key_system_id = IdInt 0, key_s_type_unique = ''y''\<rparr>,
               \<lparr>key_addr = 2, key_system_id = IdInt 0, key_s_type_unique = ''z''\<rparr>], 1)]) \<and>
   (case add (Sx (IdInt 0)) (PyNode (Sy (IdInt 0))) of
      Inl e \<Rightarrow> Inl e
    | Inr s \<Rightarrow>
        (case mul s (PyNode (Sz (IdInt 0))) of
           Inl e \<Rightarrow> Inl e
         | Inr p \<Rightarrow> build_matrices (One (ItemNode p)) [(IdInt 0, 2)])) =
   Inr (RMatrix [[\<i>, 0], [0, \<i>]])"
  by code_simp

section \<open>Matrix realization: the first checks\<close>

text \<open>
  C10: with an empty subsystem map \<open>build_matrices\<close> returns \<open>None\<close>, whatever the
  argument \<open>operators\<close> is (also one that the type check would refuse).
\<close>

theorem build_matrices_empty_subsystems:
  "build_matrices operators [] = Inr RNone"
  by (simp add: build_matrices_def)

text \<open>
  C7 at \<open>build_matrices(Sx(0), {0: 2, 1: 0})\<close>: the total dimension leaves the
  dimension 0 out, and then the identity matrix of dimension 0 is requested, which
  \<open>get_operator_matrix\<close> refuses.
\<close>

theorem build_matrices_dimension_zero_raises:
  "build_matrices (One (ItemNode (Sx (IdInt 0)))) [(IdInt 0, 2), (IdInt 1, 0)] =
   Inl (UnsupportedOperatorType ''i'' 0)"
  by code_simp

section \<open>Mixed operator lists\<close>

lemma check_types_after_dict:
  "ItemOther \<notin> set mid \<Longrightarrow>
   check_types (mid @ ItemNode n # post) True = Inl MixedOperatorTypes"
proof (induction mid)
  case Nil
  then show ?case by simp
next
  case (Cons x mid)
  then show ?case by (cases x) auto
qed

lemma check_types_prefix:
  "ItemOther \<notin> set pre \<Longrightarrow>
   check_types (pre @ rest) b = Inl MixedOperatorTypes \<or>
   (\<exists>b'. check_types (pre @ rest) b = check_types rest b')"
proof (induction pre arbitrary: b)
  case Nil
  then show ?case by auto
next
  case (Cons x pre)
  then show ?case by (cases x) auto
qed

text \<open>
  C6, as the code has it: with a non-empty subsystem map, a list of nodes and
  dictionaries in which a node comes after a dictionary is refused with the error "All
  operators must be of the same type", whatever the dimensions of the map are (no matrix
  has been requested yet).
\<close>

theorem mixed_operators_rejected:
  assumes "subs \<noteq> []"
    and "ItemOther \<notin> set (pre @ mid)"
  shows "build_matrices (Many (pre @ ItemDict d # mid @ ItemNode n # post)) subs =
         Inl MixedOperatorTypes"
proof -
  let ?rest = "ItemDict d # mid @ ItemNode n # post"
  have a: "check_types (mid @ ItemNode n # post) True = Inl MixedOperatorTypes"
    using assms(2) by (simp add: check_types_after_dict)
  have "check_types ?rest b' = Inl MixedOperatorTypes" for b'
    using a by simp
  moreover from assms(2) have "ItemOther \<notin> set pre" by simp
  ultimately have "check_types (pre @ ?rest) False = Inl MixedOperatorTypes"
    using check_types_prefix [of pre ?rest False] by auto
  then show ?thesis
    using assms(1) by (simp add: build_matrices_def Let_def)
qed

theorem mixed_operators_rejected_witness:
  "build_matrices (Many [ItemDict [], ItemNode (Sx (IdInt 0))]) [(IdInt 0, 3)] =
   Inl MixedOperatorTypes"
  using mixed_operators_rejected [of "[(IdInt 0, 3)]" "[]" "[]" "[]" "Sx (IdInt 0)" "[]"]
  by simp

text \<open>
  C6 as stated fails: with an empty subsystem map the mixed list is not looked at and
  the call returns \<open>None\<close>; and a list with the node first passes the type
  check and fails later, in \<open>_build_one_matrix\<close>, with an \<open>AttributeError\<close>.
\<close>

theorem mixed_operators_not_always_rejected:
  "build_matrices (Many [ItemDict [], ItemNode (Sx (IdInt 0))]) [] = Inr RNone \<and>
   build_matrices (Many [ItemNode (Sx (IdInt 0)), ItemDict []]) [(IdInt 0, 2)] =
   Inl NoItemsAttribute"
  by code_simp

section \<open>Shapes of the matrices\<close>

lemma shape_square: "square n M \<Longrightarrow> 0 < n \<Longrightarrow> shape M = (n, n)"
  by (cases M) (auto simp: square_def shape_def)

lemma square_zeros: "square n (zeros n)"
  by (simp add: square_def zeros_def)

lemma square_scale: "square n M \<Longrightarrow> square n (scale c M)"
  by (auto simp: square_def scale_def)

lemma square_madd: "square n A \<Longrightarrow> square n B \<Longrightarrow> square n (madd A B)"
  by (auto simp: square_def madd_def set_zip)

lemma length_columns: "square n B \<Longrightarrow> length (columns B) = n"
  by (cases B) (auto simp: square_def columns_def)

lemma square_matmul: "square n A \<Longrightarrow> square n B \<Longrightarrow> square n (matmul A B)"
  using length_columns [of n B] by (auto simp: square_def matmul_def)

lemma length_concat_const:
  "(\<And>x. x \<in> set xs \<Longrightarrow> length (f x) = b) \<Longrightarrow> length (concat (map f xs)) = length xs * b"
  by (induction xs) auto

lemma square_kron:
  assumes "square a A" and "square b B"
  shows "square (a * b) (get_kron_matrix A B)"
proof -
  have len: "length (get_kron_matrix A B) = a * b"
    unfolding get_kron_matrix_def
    using assms by (subst length_concat_const [where b = b]) (auto simp: square_def)
  have "length r = a * b" if "r \<in> set (get_kron_matrix A B)" for r
  proof -
    from that obtain lrow rrow where l: "lrow \<in> set A" and rr: "rrow \<in> set B"
      and r: "r = concat (map (\<lambda>l. map (\<lambda>r. l * r) rrow) lrow)"
      unfolding get_kron_matrix_def by auto
    have "length r = length lrow * b"
      unfolding r using assms(2) rr
      by (subst length_concat_const [where b = b]) (auto simp: square_def)
    with l assms(1) show ?thesis by (simp add: square_def)
  qed
  with len show ?thesis by (simp add: square_def)
qed

lemma supported_matrix:
  "t \<in> set supported_types \<Longrightarrow> \<exists>m. get_operator_matrix t 2 = Inr m \<and> square 2 m"
  by (auto simp: supported_types_def get_operator_matrix_def square_def zeros_def)

section \<open>The loops of the realization\<close>

lemma dims_two_lookup:
  assumes "\<forall>s \<in> set subs. snd s = 2" and "sid \<in> fst ` set subs"
  shows "map_of subs sid = Some 2"
proof -
  from assms(2) obtain d where "map_of subs sid = Some d"
    by (cases "map_of subs sid") (auto simp: map_of_eq_None_iff)
  moreover from this have "(sid, d) \<in> set subs" by (rule map_of_SomeD)
  ultimately show ?thesis using assms(1) by auto
qed

lemma grouped_Cons:
  "grouped key
     (sm(key_system_id k \<mapsto>
        (case sm (key_system_id k) of None \<Rightarrow> elementary_spec 2 k
         | Some m \<Rightarrow> matmul m (elementary_spec 2 k)))) =
   grouped (k # key) sm"
proof
  fix sid
  show "grouped key
     (sm(key_system_id k \<mapsto>
        (case sm (key_system_id k) of None \<Rightarrow> elementary_spec 2 k
         | Some m \<Rightarrow> matmul m (elementary_spec 2 k)))) sid =
   grouped (k # key) sm sid"
    by (cases "filter (\<lambda>k. key_system_id k = sid) key")
       (auto simp: grouped_def)
qed

lemma key_loop_grouped:
  assumes "\<forall>s \<in> set subs. snd s = 2" and "realizable subs key"
  shows "key_loop subs key sm = Inr (grouped key sm)"
  using assms(2)
proof (induction key arbitrary: sm)
  case Nil
  show ?case by (simp add: grouped_def)
next
  case (Cons k key)
  from Cons.prems have sid: "key_system_id k \<in> fst ` set subs"
    and ty: "key_s_type_unique k \<in> set supported_types"
    and rest: "realizable subs key"
    by (auto simp: realizable_def)
  from dims_two_lookup [OF assms(1) sid] have look: "map_of subs (key_system_id k) = Some 2" .
  from supported_matrix [OF ty] obtain m where
    m: "get_operator_matrix (key_s_type_unique k) 2 = Inr m" by blast
  then have el: "elementary_spec 2 k = m" by (simp add: elementary_spec_def)
  let ?sm = "sm(key_system_id k \<mapsto>
        (case sm (key_system_id k) of None \<Rightarrow> elementary_spec 2 k
         | Some x \<Rightarrow> matmul x (elementary_spec 2 k)))"
  have "key_loop subs (k # key) sm = key_loop subs key ?sm"
    using look m by (simp add: el cong: option.case_cong)
  also have "\<dots> = Inr (grouped key ?sm)"
    by (rule Cons.IH [OF rest])
  also have "grouped key ?sm = grouped (k # key) sm"
    by (rule grouped_Cons)
  finally show ?case .
qed

lemma kron_loop_later:
  "kron_loop sm ps (Suc i) (Some m) = Some (foldl get_kron_matrix m (map (pick sm) ps))"
  by (induction ps arbitrary: i m) auto

lemma kron_loop_all:
  "ps \<noteq> [] \<Longrightarrow> kron_loop sm ps 0 None = Some (kron_all_spec (map (pick sm) ps))"
  by (cases ps) (auto simp: kron_all_spec_def kron_loop_later)

lemma identity_loop_two:
  "\<forall>d \<in> set dims. d = 2 \<Longrightarrow> identity_loop dims = Inr (map (\<lambda>d. I2) dims)"
  by (induction dims) (auto simp: get_operator_matrix_def I2_def)

lemma fold_total_two:
  "\<forall>d \<in> set dims. d = (2::int) \<Longrightarrow>
   fold (\<lambda>dimn t. if dimn > 0 then t * dimn else t) dims t = t * 2 ^ length dims"
  by (induction dims arbitrary: t) auto

lemma total_dim_spec_two:
  "\<forall>s \<in> set subs. snd s = 2 \<Longrightarrow> total_dim_spec subs = 2 ^ length subs"
proof -
  assume a: "\<forall>s \<in> set subs. snd s = 2"
  then have "prod_list (filter (\<lambda>d. d \<noteq> 0) (map snd subs)) = (2::int) ^ length subs"
    by (induction subs) auto
  then show ?thesis by (simp add: total_dim_spec_def nat_power_eq)
qed

lemma identity_spec_two: "identity_spec 2 = I2"
  by (simp add: identity_spec_def I2_def upt_rec)

lemma square_foldl_matmul:
  "square n m \<Longrightarrow> \<forall>x \<in> set ms. square n x \<Longrightarrow> square n (foldl matmul m ms)"
  by (induction ms arbitrary: m) (auto simp: square_matmul)

lemma square_elementary:
  "key_s_type_unique k \<in> set supported_types \<Longrightarrow> square 2 (elementary_spec 2 k)"
  using supported_matrix [of "key_s_type_unique k"] by (auto simp: elementary_spec_def)

lemma square_factor:
  assumes "realizable subs key" and "snd s = 2"
  shows "square 2 (factor_spec key s)"
proof (cases "filter (\<lambda>k. key_system_id k = fst s) key")
  case Nil
  then show ?thesis
    using assms(2) by (simp add: factor_spec_def identity_spec_two I2_def square_def)
next
  case (Cons k ks)
  have "set (k # ks) \<subseteq> set key" unfolding Cons [symmetric] by auto
  with assms(1) have "\<forall>x \<in> set (k # ks). square 2 (elementary_spec 2 x)"
    by (auto simp: realizable_def intro: square_elementary)
  then show ?thesis
    using Cons assms(2) by (simp add: factor_spec_def square_foldl_matmul)
qed

lemma square_foldl_kron:
  "square a m \<Longrightarrow> \<forall>x \<in> set ms. square 2 x \<Longrightarrow>
   square (a * 2 ^ length ms) (foldl get_kron_matrix m ms)"
proof (induction ms arbitrary: a m)
  case Nil
  then show ?case by simp
next
  case (Cons x ms)
  from Cons.prems have "square (a * 2) (get_kron_matrix m x)"
    by (simp add: square_kron)
  from Cons.IH [OF this] Cons.prems show ?case by (simp add: mult.assoc)
qed

lemma square_term_matrix:
  assumes "subs \<noteq> []" and "\<forall>s \<in> set subs. snd s = 2" and "realizable subs key"
  shows "square (2 ^ length subs) (term_matrix_spec subs key)"
proof -
  from assms(1) obtain s rest where subs: "subs = s # rest" by (cases subs) auto
  have "square (2 * 2 ^ length rest)
          (foldl get_kron_matrix (factor_spec key s) (map (factor_spec key) rest))"
    using assms(2,3) unfolding subs
    by (intro square_foldl_kron [of 2 _ "map (factor_spec key) rest", simplified])
       (auto intro: square_factor)
  then show ?thesis by (simp add: term_matrix_spec_def kron_all_spec_def subs)
qed

lemma pick_grouped_factor:
  assumes "snd s = 2"
  shows "pick (grouped key Map.empty) (fst s, I2) = factor_spec key s"
  using assms
  by (cases "filter (\<lambda>k. key_system_id k = fst s) key")
     (simp_all add: grouped_def factor_spec_def identity_spec_two)

lemma picks_are_factors:
  "\<forall>s \<in> set subs. snd s = 2 \<Longrightarrow>
   map (pick (grouped key Map.empty)) (zip (map fst subs) (map (\<lambda>d. I2) (map snd subs))) =
   map (factor_spec key) subs"
  by (induction subs) (simp_all add: pick_grouped_factor del: pick.simps)

lemma iadd_square:
  "square n M \<Longrightarrow> square n T \<Longrightarrow> 0 < n \<Longrightarrow> iadd M T = Inr (madd M T)"
  by (simp add: iadd_def shape_square)

lemma term_loop_realizable:
  assumes ne: "subs \<noteq> []" and two: "\<forall>s \<in> set subs. snd s = 2"
    and b: "b = \<lparr>ids = map fst subs, identity_matrices = map (\<lambda>d. I2) (map snd subs),
                 subsystems = subs, total_dim = t\<rparr>"
  shows "\<forall>item \<in> set d. realizable subs (fst item) \<Longrightarrow> square (2 ^ length subs) M \<Longrightarrow>
         term_loop b d M =
         Inr (foldl (\<lambda>M (key, val). madd M (scale val (term_matrix_spec subs key))) M d)"
proof (induction d arbitrary: M)
  case Nil
  show ?case by simp
next
  case (Cons item d)
  obtain key val where item: "item = (key, val)" by (cases item)
  from Cons.prems item have r: "realizable subs key" by simp
  have kl: "key_loop (subsystems b) key Map.empty = Inr (grouped key Map.empty)"
    using key_loop_grouped [OF two r] by (simp add: b)
  have z: "zip (ids b) (identity_matrices b) \<noteq> []"
    using ne by (cases subs) (auto simp: b)
  have kr: "kron_loop (grouped key Map.empty) (zip (ids b) (identity_matrices b)) 0 None =
            Some (term_matrix_spec subs key)"
    using kron_loop_all [OF z, of "grouped key Map.empty"] picks_are_factors [OF two, of key]
    by (simp add: b term_matrix_spec_def)
  have sqT: "square (2 ^ length subs) (scale val (term_matrix_spec subs key))"
    by (intro square_scale square_term_matrix ne two r)
  have ia: "iadd M (scale val (term_matrix_spec subs key)) =
            Inr (madd M (scale val (term_matrix_spec subs key)))"
    using Cons.prems(2) sqT by (intro iadd_square [where n = "2 ^ length subs"]) auto
  have sqM: "square (2 ^ length subs) (madd M (scale val (term_matrix_spec subs key)))"
    using Cons.prems(2) sqT by (rule square_madd)
  from Cons.prems(1) have rest: "\<forall>item \<in> set d. realizable subs (fst item)" by simp
  show ?case
    using kl kr ia Cons.IH [OF rest sqM] by (simp add: item)
qed

section \<open>Realization is the Kronecker assembly\<close>

lemma matrix_loop_single:
  "matrix_loop b [x] = (case build_one_matrix b x of Inl e \<Rightarrow> Inl e | Inr m \<Rightarrow> Inr [m])"
  by (simp split: sum.splits)

lemma build_matrices_node:
  "build_matrices (One (ItemNode a)) subs =
   (if subs = [] then Inr RNone
    else (case build_one_dict a 0 of
            Inl e \<Rightarrow> Inl e
          | Inr (d, h) \<Rightarrow> build_matrices (One (ItemDict d)) subs))"
  by (simp add: build_matrices_def Let_def split: sum.splits prod.splits)

lemma build_matrices_dict_two:
  assumes ne: "subs \<noteq> []" and two: "\<forall>s \<in> set subs. snd s = 2"
  shows "build_matrices (One (ItemDict d)) subs =
         (case term_loop \<lparr>ids = map fst subs, identity_matrices = map (\<lambda>d. I2) (map snd subs),
                           subsystems = subs, total_dim = 2 ^ length subs\<rparr>
                 d (zeros (2 ^ length subs)) of
            Inl e \<Rightarrow> Inl e
          | Inr m \<Rightarrow> Inr (RMatrix m))"
proof -
  have t: "fold (\<lambda>dimn t. if dimn > 0 then t * dimn else t) (map snd subs) 1 = 2 ^ length subs"
    using fold_total_two [of "map snd subs" 1] two by simp
  have i: "identity_loop (map snd subs) = Inr (map (\<lambda>d. I2) (map snd subs))"
    using two by (intro identity_loop_two) auto
  have z: "get_zeros_matrix (2 ^ length subs) = Inr (zeros (2 ^ length subs))"
    by (simp add: get_zeros_matrix_def get_operator_matrix_def nat_power_eq)
  show ?thesis
    using ne by (simp add: build_matrices_def Let_def t i z split: sum.splits)
qed

text \<open>
  C4: for a non-empty subsystem map with dimensions 2 and a dictionary whose keys name
  subsystems of the map and operator types that \<open>get_operator_matrix\<close> knows,
  \<open>build_matrices\<close> returns the matrix that the specification describes: for every
  term, the Kronecker product over the subsystems in the order of the map, of the
  product of the term's elementary matrices on that subsystem (the identity when there is
  none), scaled by the coefficient, summed over the terms. The same holds for a node that
  flattens to this dictionary. With the map \<open>{0: 2, 1: 2}\<close>, \<open>Sx(0)\<close> gives
  \<open>kron(X, I)\<close> and \<open>Sz(1)\<close> gives \<open>kron(I, Z)\<close>.
\<close>

theorem realize_kron:
  "(subs \<noteq> [] \<and> (\<forall>s \<in> set subs. snd s = 2) \<and> (\<forall>item \<in> set d. realizable subs (fst item)) \<longrightarrow>
      build_matrices (One (ItemDict d)) subs = Inr (RMatrix (realize_spec subs d)) \<and>
      (\<forall>a h. build_one_dict a 0 = Inr (d, h) \<longrightarrow>
         build_matrices (One (ItemNode a)) subs = Inr (RMatrix (realize_spec subs d)))) \<and>
   build_matrices (One (ItemNode (Sx (IdInt 0)))) [(IdInt 0, 2), (IdInt 1, 2)] =
     Inr (RMatrix (get_kron_matrix [[0, 1], [1, 0]] [[1, 0], [0, 1]])) \<and>
   build_matrices (One (ItemNode (Sz (IdInt 1)))) [(IdInt 0, 2), (IdInt 1, 2)] =
     Inr (RMatrix (get_kron_matrix [[1, 0], [0, 1]] [[1, 0], [0, - 1]]))"
proof (intro conjI impI)
  assume a: "subs \<noteq> [] \<and> (\<forall>s \<in> set subs. snd s = 2) \<and>
             (\<forall>item \<in> set d. realizable subs (fst item))"
  then have ne: "subs \<noteq> []" and two: "\<forall>s \<in> set subs. snd s = 2"
    and r: "\<forall>item \<in> set d. realizable subs (fst item)" by auto
  have "term_loop \<lparr>ids = map fst subs, identity_matrices = map (\<lambda>d. I2) (map snd subs),
                    subsystems = subs, total_dim = 2 ^ length subs\<rparr>
          d (zeros (2 ^ length subs)) = Inr (realize_spec subs d)"
    using term_loop_realizable [OF ne two refl r square_zeros]
    by (simp add: realize_spec_def total_dim_spec_two [OF two])
  then show d: "build_matrices (One (ItemDict d)) subs = Inr (RMatrix (realize_spec subs d))"
    by (simp add: build_matrices_dict_two [OF ne two])
  show "\<forall>a h. build_one_dict a 0 = Inr (d, h) \<longrightarrow>
         build_matrices (One (ItemNode a)) subs = Inr (RMatrix (realize_spec subs d))"
    using d ne by (simp add: build_matrices_node)
next
  show "build_matrices (One (ItemNode (Sx (IdInt 0)))) [(IdInt 0, 2), (IdInt 1, 2)] =
     Inr (RMatrix (get_kron_matrix [[0, 1], [1, 0]] [[1, 0], [0, 1]]))"
    by code_simp
next
  show "build_matrices (One (ItemNode (Sz (IdInt 1)))) [(IdInt 0, 2), (IdInt 1, 2)] =
     Inr (RMatrix (get_kron_matrix [[1, 0], [0, 1]] [[1, 0], [0, - 1]]))"
    by code_simp
qed

theorem realize_kron_witness:
  "build_matrices
     (One (ItemDict [([\<lparr>key_addr = 0, key_system_id = IdInt 1, key_s_type_unique = ''z''\<rparr>,
                       \<lparr>key_addr = 1, key_system_id = IdInt 1, key_s_type_unique = ''x''\<rparr>], 3)]))
     [(IdInt 0, 2), (IdInt 1, 2)] =
   Inr (RMatrix (realize_spec [(IdInt 0, 2), (IdInt 1, 2)]
     [([\<lparr>key_addr = 0, key_system_id = IdInt 1, key_s_type_unique = ''z''\<rparr>,
        \<lparr>key_addr = 1, key_system_id = IdInt 1, key_s_type_unique = ''x''\<rparr>], 3)])) \<and>
   realize_spec [(IdInt 0, 2), (IdInt 1, 2)]
     [([\<lparr>key_addr = 0, key_system_id = IdInt 1, key_s_type_unique = ''z''\<rparr>,
        \<lparr>key_addr = 1, key_system_id = IdInt 1, key_s_type_unique = ''x''\<rparr>], 3)] =
   [[0, 3, 0, 0], [- 3, 0, 0, 0], [0, 0, 0, 3], [0, 0, - 3, 0]]"
proof
  show "build_matrices
     (One (ItemDict [([\<lparr>key_addr = 0, key_system_id = IdInt 1, key_s_type_unique = ''z''\<rparr>,
                       \<lparr>key_addr = 1, key_system_id = IdInt 1, key_s_type_unique = ''x''\<rparr>], 3)]))
     [(IdInt 0, 2), (IdInt 1, 2)] =
   Inr (RMatrix (realize_spec [(IdInt 0, 2), (IdInt 1, 2)]
     [([\<lparr>key_addr = 0, key_system_id = IdInt 1, key_s_type_unique = ''z''\<rparr>,
        \<lparr>key_addr = 1, key_system_id = IdInt 1, key_s_type_unique = ''x''\<rparr>], 3)]))"
    using realize_kron [THEN conjunct1, of "[(IdInt 0, 2), (IdInt 1, 2)]"
      "[([\<lparr>key_addr = 0, key_system_id = IdInt 1, key_s_type_unique = ''z''\<rparr>,
        \<lparr>key_addr = 1, key_system_id = IdInt 1, key_s_type_unique = ''x''\<rparr>], 3)]"]
    by (simp add: realizable_def supported_types_def)
  show "realize_spec [(IdInt 0, 2), (IdInt 1, 2)]
     [([\<lparr>key_addr = 0, key_system_id = IdInt 1, key_s_type_unique = ''z''\<rparr>,
        \<lparr>key_addr = 1, key_system_id = IdInt 1, key_s_type_unique = ''x''\<rparr>], 3)] =
   [[0, 3, 0, 0], [- 3, 0, 0, 0], [0, 0, 0, 3], [0, 0, - 3, 0]]"
    by code_simp
qed

section \<open>A subsystem absent from the map\<close>

lemma key_loop_append:
  "key_loop subs (pre @ rest) sm =
   (case key_loop subs pre sm of Inl e \<Rightarrow> Inl e | Inr sm' \<Rightarrow> key_loop subs rest sm')"
  by (induction pre arbitrary: sm) (simp_all split: option.splits sum.splits)

lemma term_loop_append:
  "term_loop b (d1 @ d2) M =
   (case term_loop b d1 M of Inl e \<Rightarrow> Inl e | Inr M' \<Rightarrow> term_loop b d2 M')"
  by (induction d1 arbitrary: M) (auto split: option.splits sum.splits)

text \<open>
  C8, as the code has it: with a non-empty subsystem map of dimensions 2, if a term has
  a key whose subsystem is absent from the map, and every key met before it (the keys of
  the terms before, and the keys before it in its term) is on a subsystem of the map
  with a supported operator type, then \<open>build_matrices\<close> raises the error that names
  this subsystem; the same for a node that flattens to this dictionary.
\<close>

theorem missing_subsystem_named:
  assumes ne: "subs \<noteq> []" and two: "\<forall>s \<in> set subs. snd s = 2"
    and before: "\<forall>item \<in> set before. realizable subs (fst item)"
    and pre: "realizable subs pre"
    and missing: "key_system_id k \<notin> fst ` set subs"
  shows "build_matrices (One (ItemDict (before @ (pre @ k # post, val) # after))) subs =
           Inl (MissingSubsystem (key_system_id k)) \<and>
         (\<forall>a h. build_one_dict a 0 = Inr (before @ (pre @ k # post, val) # after, h) \<longrightarrow>
            build_matrices (One (ItemNode a)) subs = Inl (MissingSubsystem (key_system_id k)))"
proof -
  let ?b = "\<lparr>ids = map fst subs, identity_matrices = map (\<lambda>d. I2) (map snd subs),
             subsystems = subs, total_dim = 2 ^ length subs\<rparr>"
  let ?d = "before @ (pre @ k # post, val) # after"
  have look: "map_of subs (key_system_id k) = None"
    using missing by (simp add: map_of_eq_None_iff)
  have "key_loop subs (pre @ k # post) Map.empty = Inl (MissingSubsystem (key_system_id k))"
    using look by (simp add: key_loop_append key_loop_grouped [OF two pre])
  then have bad: "term_loop ?b ((pre @ k # post, val) # after) M =
                  Inl (MissingSubsystem (key_system_id k))" for M
    by simp
  have "term_loop ?b before (zeros (2 ^ length subs)) =
        Inr (foldl (\<lambda>M (key, val). madd M (scale val (term_matrix_spec subs key)))
               (zeros (2 ^ length subs)) before)"
    by (rule term_loop_realizable [OF ne two refl before square_zeros])
  then have "term_loop ?b (before @ (pre @ k # post, val) # after) (zeros (2 ^ length subs)) = Inl (MissingSubsystem (key_system_id k))"
    by (simp only: term_loop_append bad sum.case)
  then have d: "build_matrices (One (ItemDict ?d)) subs = Inl (MissingSubsystem (key_system_id k))"
    by (simp add: build_matrices_dict_two [OF ne two])
  then show ?thesis
    using ne by (simp add: build_matrices_node)
qed

theorem missing_subsystem_named_witness:
  "build_matrices
     (One (ItemDict [([\<lparr>key_addr = 0, key_system_id = IdInt 0, key_s_type_unique = ''z''\<rparr>], 1),
                     ([\<lparr>key_addr = 1, key_system_id = IdInt 0, key_s_type_unique = ''x''\<rparr>,
                       \<lparr>key_addr = 2, key_system_id = IdInt 5, key_s_type_unique = ''y''\<rparr>], 2)]))
     [(IdInt 0, 2)] =
   Inl (MissingSubsystem (IdInt 5))"
  using missing_subsystem_named [of "[(IdInt 0, 2)]"
      "[([\<lparr>key_addr = 0, key_system_id = IdInt 0, key_s_type_unique = ''z''\<rparr>], 1)]"
      "[\<lparr>key_addr = 1, key_system_id = IdInt 0, key_s_type_unique = ''x''\<rparr>]"
      "\<lparr>key_addr = 2, key_system_id = IdInt 5, key_s_type_unique = ''y''\<rparr>" "[]" 2 "[]"]
  by (simp add: realizable_def supported_types_def)

text \<open>
  C8 as stated fails in three ways: with an empty subsystem map \<open>Sx(5)\<close> gives
  \<open>None\<close>; with the map \<open>{0: 3}\<close> the identity matrix of dimension 3 is refused
  before any term is read; and in \<open>DynamicalOperator(0, 'foo') * Sx(5)\<close> with the map
  \<open>{0: 2}\<close> the unknown type of the first key is reported, not the subsystem 5.
\<close>

theorem missing_subsystem_other_outcomes:
  "build_matrices (One (ItemNode (Sx (IdInt 5)))) [] = Inr RNone \<and>
   build_matrices (One (ItemNode (Sx (IdInt 5)))) [(IdInt 0, 3)] =
     Inl (UnsupportedOperatorType ''i'' 3) \<and>
   (case mul (DynamicalOperator (IdInt 0) ''foo'' None) (PyNode (Sx (IdInt 5))) of
      Inl e \<Rightarrow> Inl e
    | Inr p \<Rightarrow> build_matrices (One (ItemNode p)) [(IdInt 0, 2)]) =
     Inl (UnsupportedOperatorType ''foo'' 2)"
  by code_simp

section \<open>Dictionaries built by flattening have distinct keys\<close>

lemma dict_set_keys:
  "map (\<lambda>item. map key_addr (fst item)) (dict_set d k v) =
   (if map key_addr k \<in> set (map (\<lambda>item. map key_addr (fst item)) d)
    then map (\<lambda>item. map key_addr (fst item)) d
    else map (\<lambda>item. map key_addr (fst item)) d @ [map key_addr k])"
  by (induction d k v rule: dict_set.induct) (auto simp: tuple_eq_def)

lemma dict_ok_dict_set: "dict_ok d \<Longrightarrow> dict_ok (dict_set d k v)"
  by (simp add: dict_ok_def dict_set_keys)

lemma dict_ok_add_items: "dict_ok result \<Longrightarrow> dict_ok (add_items items result)"
  by (induction items result rule: add_items.induct) (simp_all add: dict_ok_dict_set)

lemma dict_set_middle:
  "\<forall>item \<in> set done. \<not> tuple_eq (fst item) k \<Longrightarrow>
   dict_set (done @ (k, v) # rest) k v' = done @ (k, v') # rest"
  by (induction "done") (auto simp: tuple_eq_def)

lemma scale_items_done:
  "dict_ok (done @ items) \<Longrightarrow>
   scale_items items (done @ items) s = done @ scaled_dict (scalar_value s) items"
proof (induction items arbitrary: "done")
  case Nil
  show ?case by (simp add: scaled_dict_def)
next
  case (Cons item items)
  obtain k v where item: "item = (k, v)" by (cases item)
  from Cons.prems have fresh: "\<forall>i \<in> set done. \<not> tuple_eq (fst i) k"
    by (force simp: dict_ok_def item tuple_eq_def)
  have ok: "dict_ok ((done @ [(k, v * scalar_value s)]) @ items)"
    using Cons.prems by (simp add: dict_ok_def item)
  have "scale_items (item # items) (done @ item # items) s =
        scale_items items ((done @ [(k, v * scalar_value s)]) @ items) s"
    by (simp add: item dict_set_middle [OF fresh])
  also have "\<dots> = (done @ [(k, v * scalar_value s)]) @ scaled_dict (scalar_value s) items"
    by (rule Cons.IH [OF ok])
  finally show ?case by (simp add: item scaled_dict_def)
qed

lemma scale_items_scaled_dict:
  "dict_ok d \<Longrightarrow> scale_items d d s = scaled_dict (scalar_value s) d"
  using scale_items_done [of "[]" d s] by simp

lemma dict_ok_scaled_dict: "dict_ok d \<Longrightarrow> dict_ok (scaled_dict c d)"
  by (simp add: dict_ok_def scaled_dict_def comp_def)

lemma build_one_dict_ok:
  "build_one_dict n h = Inr (d, h') \<Longrightarrow> dict_ok d"
  "sum_ops ops result h = Inr (d, h') \<Longrightarrow> dict_ok result \<Longrightarrow> dict_ok d"
  "prod_ops ops' acc h = Inr (r, h') \<Longrightarrow> True"
proof (induction n h and ops result h and ops' acc h arbitrary: d h' and d h' and r h'
       rule: build_one_dict_sum_ops_prod_ops.induct)
  case (1 sid st stu al ops heap)
  then show ?case by (simp add: dict_ok_def)
next
  case (2 sid st stu al ops heap)
  then show ?case by (auto simp: dict_ok_def split: sum.splits)
next
  case (3 sid st stu al op s heap)
  then show ?case
    by (auto simp: scale_items_scaled_dict dict_ok_scaled_dict split: sum.splits)
next
  case (4 sid st stu al heap)
  then show ?case by (auto simp: dict_ok_def)
next
  case (5 sid st stu al t heap)
  then show ?case by simp
next
  case (6 result heap)
  then show ?case by simp
next
  case (7 op ops result heap)
  then show ?case by (auto simp: dict_ok_add_items split: sum.splits)
next
  case (8 acc heap)
  then show ?case by simp
next
  case (9 op ops acc heap)
  then show ?case by simp
qed

section \<open>Scalar products\<close>

lemma shape_scale [simp]: "shape (scale c M) = shape M"
  by (cases M) (simp_all add: shape_def scale_def)

lemma scale_zeros: "scale c (zeros n) = zeros n"
  by (simp add: scale_def zeros_def)

lemma map2_add_scaled:
  "map2 (+) (map ((*) c) r) (map ((*) (v * c)) t) =
   map ((*) c) (map2 (+) r (map ((*) v) t))" for c v :: complex
proof (induction r arbitrary: t)
  case Nil
  show ?case by simp
next
  case (Cons x r)
  show ?case
  proof (cases t)
    case Nil
    then show ?thesis by simp
  next
    case t: (Cons y t')
    have "c * x + v * c * y = c * (x + v * y)" by (simp add: algebra_simps)
    then show ?thesis by (simp add: t Cons.IH)
  qed
qed

lemma madd_scaled:
  "madd (scale c M) (scale (v * c) T) = scale c (madd M (scale v T))"
proof (induction M arbitrary: T)
  case Nil
  show ?case by (simp add: madd_def scale_def)
next
  case (Cons r M)
  show ?case
  proof (cases T)
    case Nil
    then show ?thesis by (simp add: madd_def scale_def)
  next
    case (Cons t T')
    with Cons.IH [of T'] show ?thesis
      by (simp add: madd_def scale_def map2_add_scaled)
  qed
qed

lemma shape_one: "shape T = (1, 1) \<Longrightarrow> \<exists>t. T = [[t]]"
proof -
  assume a: "shape T = (1, 1)"
  then obtain r where T: "T = [r]" by (cases T) (auto simp: shape_def)
  with a obtain t where "r = [t]" by (cases r) (auto simp: shape_def)
  with T show ?thesis by simp
qed

lemma iadd_scaled:
  "iadd (scale c M) (scale (v * c) T) =
   (case iadd M (scale v T) of Inl e \<Rightarrow> Inl e | Inr R \<Rightarrow> Inr (scale c R))"
proof (cases "shape T = shape M")
  case True
  then show ?thesis by (simp add: iadd_def madd_scaled)
next
  case False
  show ?thesis
  proof (cases "shape T = (1, 1)")
    case True
    then obtain t where T: "T = [[t]]" using shape_one by blast
    have "map (map (\<lambda>x. x + hd (hd (scale (v * c) T)))) (scale c M) =
          scale c (map (map (\<lambda>x. x + hd (hd (scale v T)))) M)"
      by (simp add: T scale_def comp_def algebra_simps)
    with False True show ?thesis
      by (simp add: iadd_def)
  next
    case b: False
    with False show ?thesis by (simp add: iadd_def)
  qed
qed

lemma term_loop_scaled:
  "term_loop b (scaled_dict c d) (scale c M) =
   (case term_loop b d M of Inl e \<Rightarrow> Inl e | Inr R \<Rightarrow> Inr (scale c R))"
proof (induction d arbitrary: M)
  case Nil
  show ?case by (simp add: scaled_dict_def)
next
  case (Cons item d)
  obtain key val where item: "item = (key, val)" by (cases item)
  show ?case
  proof (cases "key_loop (subsystems b) key Map.empty")
    case (Inl e)
    then show ?thesis by (simp add: item scaled_dict_def)
  next
    case (Inr sm)
    show ?thesis
    proof (cases "kron_loop sm (zip (ids b) (identity_matrices b)) 0 None")
      case None
      with Inr show ?thesis by (simp add: item scaled_dict_def)
    next
      case (Some opm)
      show ?thesis
      proof (cases "iadd M (scale val opm)")
        case (Inl e)
        with Inr Some iadd_scaled [of c M val opm] show ?thesis
          by (simp add: item scaled_dict_def)
      next
        case r: (Inr R)
        with Inr Some iadd_scaled [of c M val opm] Cons.IH [of R] show ?thesis
          by (simp add: item scaled_dict_def)
      qed
    qed
  qed
qed

lemma build_matrices_scaled_dict:
  "build_matrices (One (ItemDict (scaled_dict c d))) subs =
   (case build_matrices (One (ItemDict d)) subs of
      Inl e \<Rightarrow> Inl e
    | Inr r \<Rightarrow> Inr (scale_result c r))"
proof (cases "subs = []")
  case True
  then show ?thesis by (simp add: build_matrices_def)
next
  case False
  define total where "total = fold (\<lambda>dimn t. if dimn > 0 then t * dimn else t) (map snd subs) (1::int)"
  show ?thesis
  proof (cases "identity_loop (map snd subs)")
    case (Inl e)
    with False show ?thesis by (simp add: build_matrices_def)
  next
    case (Inr ims)
    show ?thesis
    proof (cases "total < 0")
      case True
      with False Inr show ?thesis
        by (simp add: build_matrices_def Let_def total_def [symmetric] get_zeros_matrix_def
              get_operator_matrix_def)
    next
      case nn: False
      define b where "b = \<lparr>ids = map fst subs, identity_matrices = ims,
                            subsystems = subs, total_dim = total\<rparr>"
      have "term_loop b (scaled_dict c d) (zeros (nat total)) =
            (case term_loop b d (zeros (nat total)) of
               Inl e \<Rightarrow> Inl e | Inr R \<Rightarrow> Inr (scale c R))"
        using term_loop_scaled [of b c d "zeros (nat total)"] by (simp add: scale_zeros)
      moreover have "total_dim b = total" by (simp add: b_def)
      ultimately show ?thesis
        using False Inr nn
        by (simp add: build_matrices_def Let_def total_def [symmetric] get_zeros_matrix_def
              get_operator_matrix_def b_def [symmetric] split: sum.splits)
    qed
  qed
qed

text \<open>
  C5: for a node \<open>a\<close> and a scalar \<open>c\<close> (an \<open>int\<close>, a \<open>float\<close> or a
  \<open>complex\<close>), \<open>a * c\<close> and \<open>c * a\<close> are the same node, with
  \<open>compound_type == '*'\<close> and \<open>compound_ops == [a, c]\<close>; and
  \<open>build_matrices\<close> of this node is \<open>c\<close> times \<open>build_matrices\<close> of \<open>a\<close>, for
  every subsystem map: the same error when \<open>a\<close> cannot be realized, \<open>None\<close> for the
  empty map, and the matrix scaled by \<open>c\<close> otherwise.
\<close>

theorem scalar_product:
  "\<exists>r. mul a (scalar_pyval c) = Inr r \<and> rmul a (scalar_pyval c) = Inr r \<and>
       compound_type r = ''*'' \<and> compound_ops r = Some [PyNode a, scalar_pyval c] \<and>
       build_matrices (One (ItemNode r)) subs =
         (case build_matrices (One (ItemNode a)) subs of
            Inl e \<Rightarrow> Inl e
          | Inr m \<Rightarrow> Inr (scale_result (scalar_value c) m))"
proof -
  let ?r = "set_compound (new_operator a) (Scaled a c)"
  have m: "mul a (scalar_pyval c) = Inr ?r" by (cases c) simp_all
  have f: "build_one_dict ?r 0 =
           (case build_one_dict a 0 of
              Inl e \<Rightarrow> Inl e
            | Inr (d, h) \<Rightarrow> Inr (scaled_dict (scalar_value c) d, h))"
    by (auto simp: set_compound_def scale_items_scaled_dict build_one_dict_ok(1)
             split: sum.splits)
  have "build_matrices (One (ItemNode ?r)) subs =
         (case build_matrices (One (ItemNode a)) subs of
            Inl e \<Rightarrow> Inl e
          | Inr m \<Rightarrow> Inr (scale_result (scalar_value c) m))"
    by (simp add: build_matrices_node f build_matrices_scaled_dict split: sum.splits prod.splits)
  with m show ?thesis
    by (simp add: rmul_def set_compound_def)
qed

text \<open>An instance: \<open>Sx(0) * 3\<close> and \<open>3 * Sx(0)\<close> with the map \<open>{0: 2}\<close>.\<close>

theorem scalar_product_example:
  "\<exists>r. mul (Sx (IdInt 0)) (PyInt 3) = Inr r \<and> rmul (Sx (IdInt 0)) (PyInt 3) = Inr r \<and>
       build_matrices (One (ItemNode r)) [(IdInt 0, 2)] = Inr (RMatrix [[0, 3], [3, 0]])"
proof -
  have "build_matrices (One (ItemNode (Sx (IdInt 0)))) [(IdInt 0, 2)] =
        Inr (RMatrix [[0, 1], [1, 0]])"
    by code_simp
  with scalar_product [of "Sx (IdInt 0)" "SInt 3" "[(IdInt 0, 2)]"] show ?thesis
    by (auto simp: scale_def)
qed

section \<open>The compiled rule evaluates the declared rule\<close>

lemma remdups_snoc:
  "remdups (xs @ [x]) = remdups (filter (\<lambda>y. y \<noteq> x) xs) @ [x]"
  by (induction xs) auto

lemma first_seen_Cons:
  "rev (remdups (rev (x # xs))) = x # rev (remdups (rev (filter (\<lambda>y. y \<noteq> x) xs)))"
  by (simp add: remdups_snoc rev_filter)

lemma foldl_add_unique:
  "foldl add_unique acc xs = acc @ rev (remdups (rev (filter (\<lambda>x. x \<notin> set acc) xs)))"
proof (induction xs arbitrary: acc)
  case Nil
  show ?case by simp
next
  case (Cons x xs)
  show ?case
  proof (cases "x \<in> set acc")
    case True
    then have "add_unique acc x = acc" by (simp add: add_unique_def)
    with True show ?thesis by (simp add: Cons.IH)
  next
    case False
    then have a: "add_unique acc x = acc @ [x]" by (simp add: add_unique_def)
    have f: "filter (\<lambda>y. y \<noteq> x) (filter (\<lambda>x. x \<notin> set acc) xs) =
          filter (\<lambda>y. y \<notin> set (acc @ [x])) xs"
      by (induction xs) auto
    have "foldl add_unique acc (x # xs) = foldl add_unique (acc @ [x]) xs"
      by (simp add: a)
    also have "\<dots> = (acc @ [x]) @ rev (remdups (rev (filter (\<lambda>y. y \<notin> set (acc @ [x])) xs)))"
      by (rule Cons.IH)
    also have "\<dots> = acc @ rev (remdups (rev (x # filter (\<lambda>x. x \<notin> set acc) xs)))"
      unfolding first_seen_Cons f by simp
    finally show ?thesis using False by simp
  qed
qed

lemma unique_pairs_first_seen:
  "unique_pairs 0 rule = rev (remdups (rev (concat (map snd rule))))"
proof -
  have "map (shift_pair 0) ps = ps" for ps
    by (induction ps) (simp_all add: shift_pair_def)
  then show ?thesis by (simp add: unique_pairs_def foldl_add_unique)
qed

lemma position_nth: "p \<in> set qs \<Longrightarrow> position qs p < length qs \<and> qs ! position qs p = p"
  by (induction qs) auto

lemma zip_pad:
  "length xs = length ys \<Longrightarrow>
   zip (pad n a xs) (pad n b ys) = zip xs ys @ replicate (n - length ys) (a, b)"
  by (simp add: pad_def zip_replicate)

lemma nth_pad: "i < length xs \<Longrightarrow> pad n a xs ! i = xs ! i"
  by (simp add: pad_def nth_append)

lemma sum_list_replicate_zero: "sum_list (replicate k (0 :: 'v :: real_vector)) = 0"
  by (induction k) simp_all

lemma evaluate_row:
  assumes "set (map snd row) \<subseteq> set unique"
  shows "sum_list (map (evaluate_slot (pad ul (- 1, - 1) unique) binary_op A B)
            (zip (pad cl 0 (map fst row))
                 (pad cl (- 1) (map (\<lambda>cp. int (position unique (shift_pair 0 (snd cp)))) row)))) =
         sum_list (map (\<lambda>cp. fst cp *\<^sub>R binary_op (A ! nat (fst (snd cp))) (B ! nat (snd (snd cp)))) row)"
proof -
  have slot: "evaluate_slot (pad ul (- 1, - 1) unique) binary_op A B
                (fst cp, int (position unique (shift_pair 0 (snd cp)))) =
              fst cp *\<^sub>R binary_op (A ! nat (fst (snd cp))) (B ! nat (snd (snd cp)))"
    if "cp \<in> set row" for cp
  proof -
    from that assms have "snd cp \<in> set unique" by auto
    from position_nth [OF this] show ?thesis
      by (simp add: evaluate_slot_def shift_pair_def nth_pad)
  qed
  have z: "zip (map fst row) (map (\<lambda>cp. int (position unique (shift_pair 0 (snd cp)))) row) =
           map (\<lambda>cp. (fst cp, int (position unique (shift_pair 0 (snd cp))))) row"
    by (induction row) simp_all
  have pad0: "evaluate_slot (pad ul (- 1, - 1) unique) binary_op A B (0, - 1) = 0"
    by (simp add: evaluate_slot_def)
  show ?thesis
    using slot
    by (simp add: zip_pad z pad0 sum_list_replicate_zero comp_def cong: map_cong)
qed

lemma zip_map_same: "zip (map f xs) (map g xs) = map (\<lambda>x. (f x, g x)) xs"
  by (induction xs) simp_all

lemma evaluate_compiled_rows:
  "evaluate_compiled (compile_custom_operation_rule rule ul cl 0) binary_op A B =
   map (entry_sum binary_op A B) rule"
proof -
  define unique where "unique = unique_pairs 0 rule"
  have sub: "set (map snd (zip (fst entry) (snd entry))) \<subseteq> set unique"
    if "entry \<in> set rule" for entry
  proof -
    have "set (map snd (zip (fst entry) (snd entry))) \<subseteq> set (snd entry)"
      by (auto dest: set_zip_rightD)
    also have "\<dots> \<subseteq> set (concat (map snd rule))" using that by auto
    also have "\<dots> = set unique" by (simp add: unique_def unique_pairs_first_seen)
    finally show ?thesis .
  qed
  define ul' where "ul' = (case ul of None \<Rightarrow> length unique | Some n \<Rightarrow> n)"
  define cl' where "cl' = (case cl of
      None \<Rightarrow> foldr max (map length (map (\<lambda>entry. zip (fst entry) (snd entry)) rule)) 0
    | Some n \<Rightarrow> n)"
  define F where "F = (\<lambda>entry. sum_list (map (evaluate_slot (pad ul' (- 1, - 1) unique) binary_op A B)
            (zip (pad cl' 0 (map fst (zip (fst entry) (snd entry))))
                 (pad cl' (- 1) (map (\<lambda>cp. int (position unique (shift_pair 0 (snd cp))))
                    (zip (fst entry) (snd entry)))))))"
  have "evaluate_compiled (compile_custom_operation_rule rule ul cl 0) binary_op A B = map F rule"
    unfolding evaluate_compiled_def compile_custom_operation_rule_def Let_def
      unique_def [symmetric] ul'_def [symmetric] cl'_def [symmetric]
    by (simp add: zip_map_same comp_def F_def)
  also have "map F rule = map (entry_sum binary_op A B) rule"
  proof (rule map_cong [OF refl])
    fix entry assume "entry \<in> set rule"
    from evaluate_row [OF sub [OF this]] show "F entry = entry_sum binary_op A B entry"
      by (simp only: F_def entry_sum_def)
  qed
  finally show ?thesis .
qed

text \<open>
  C3, on the compiler as the specification describes it: the table of unique pairs is
  the list of all pairs of the rule with every repetition after the first removed; for
  operand batches in which every index of the rule is in range, and any binary
  operation, the compiled rule (with any padding widths) evaluates, entry by entry, to
  the sum of \<open>coeff[m] * binary_op(A[i_m], B[j_m])\<close>, the padding slots adding zero; and
  for the rule of the tests the unique pairs are \<open>[[0, 2], [1, 1], [2, 0]]\<close> and the three
  terms are \<open>op(A0, B2) + 2 op(A1, B1) + 3 op(A2, B0)\<close>, \<open>op(A0, B2)\<close> and
  \<open>3 op(A1, B1)\<close>.
\<close>

theorem compiled_rule_evaluates_rule:
  "fst (compile_custom_operation_rule rule None None 0) =
     rev (remdups (rev (concat (map snd rule)))) \<and>
   ((\<forall>entry \<in> set rule. \<forall>p \<in> set (snd entry).
        0 \<le> fst p \<and> nat (fst p) < length A \<and> 0 \<le> snd p \<and> nat (snd p) < length B) \<longrightarrow>
      evaluate_compiled (compile_custom_operation_rule rule unique_len combo_len 0) binary_op A B =
        map (entry_sum binary_op A B) rule \<and>
      CustomBinaryOp rule binary_op A B = map (entry_sum binary_op A B) rule) \<and>
   fst (compile_custom_operation_rule mult_rule1 None None 0) = [(0, 2), (1, 1), (2, 0)] \<and>
   CustomBinaryOp mult_rule1 binary_op' [A0, A1, A2] [B0, B1, B2] =
     [binary_op' A0 B2 + 2 *\<^sub>R binary_op' A1 B1 + 3 *\<^sub>R binary_op' A2 B0,
      binary_op' A0 B2,
      3 *\<^sub>R binary_op' A1 B1]"
proof (intro conjI impI)
  show "fst (compile_custom_operation_rule rule None None 0) =
     rev (remdups (rev (concat (map snd rule))))"
    by (simp add: compile_custom_operation_rule_def Let_def pad_def unique_pairs_first_seen)
  show "evaluate_compiled (compile_custom_operation_rule rule unique_len combo_len 0) binary_op A B =
        map (entry_sum binary_op A B) rule"
    by (rule evaluate_compiled_rows)
  show "CustomBinaryOp rule binary_op A B = map (entry_sum binary_op A B) rule"
    by (simp add: CustomBinaryOp_def evaluate_compiled_rows)
  show "fst (compile_custom_operation_rule mult_rule1 None None 0) = [(0, 2), (1, 1), (2, 0)]"
    by (simp add: compile_custom_operation_rule_def Let_def pad_def unique_pairs_def
          mult_rule1_def add_unique_def shift_pair_def)
  show "CustomBinaryOp mult_rule1 binary_op' [A0, A1, A2] [B0, B1, B2] =
     [binary_op' A0 B2 + 2 *\<^sub>R binary_op' A1 B1 + 3 *\<^sub>R binary_op' A2 B0,
      binary_op' A0 B2,
      3 *\<^sub>R binary_op' A1 B1]"
    by (simp add: CustomBinaryOp_def evaluate_compiled_rows entry_sum_def mult_rule1_def)
qed

theorem compiled_rule_evaluates_rule_witness:
  "evaluate_compiled (compile_custom_operation_rule mult_rule1 (Some 5) (Some 6) 0)
     (\<lambda>a b. a * b) [2, 3, 5 :: real] [7, 11, 13 :: real] = [197, 26, 99] \<and>
   CustomBinaryOp mult_rule1 (\<lambda>a b. a * b) [2, 3, 5 :: real] [7, 11, 13 :: real] = [197, 26, 99]"
  using compiled_rule_evaluates_rule [THEN conjunct2, THEN conjunct1,
          of mult_rule1 "[2, 3, 5 :: real]" "[7, 11, 13 :: real]" "Some 5" "Some 6" "\<lambda>a b. a * b"]
  by (simp add: mult_rule1_def entry_sum_def)

end
